theory Spec2Isabelle
  imports Main "HOL-Library.Word" "HOL-Library.Sublist"
begin

section \<open>Blocking-query index helpers (helper/blocking/blocking.go)\<close>

text \<open>
  Both helpers take two \<open>uint64\<close> values, modelled as 64-bit words. The order on words
  is the unsigned one, which is Go's order on \<open>uint64\<close>.
\<close>

definition IndexHasChange :: "64 word \<Rightarrow> 64 word \<Rightarrow> bool" where
  "IndexHasChange new old = (if new \<le> old then False else True)"

definition FindMaxFound :: "64 word \<Rightarrow> 64 word \<Rightarrow> 64 word" where
  "FindMaxFound new old = (if new \<le> old then old else new)"

section \<open>Data model of the agent (agent package)\<close>

text \<open>
  Errors are the messages they carry; \<open>fmt.Errorf\<close> with a \<open>%v\<close> of the cause
  appends the cause's message. A \<open>map[string]string\<close> that the core only passes on is an
  association list. \<open>time.Duration\<close> is a signed count of nanoseconds; the core never
  computes with one, it only compares against zero, so it is an \<open>int\<close>. A dispensed
  plugin (the pointer \<open>Dispense\<close> returns) is an opaque handle.
\<close>

type_synonym error = string
type_synonym config = "(string \<times> string) list"
type_synonym duration = int
type_synonym handle = nat

definition Second :: duration where
  "Second = 1000000000"

record policy_target =
  Name :: string
  Config :: config

record policy_strategy =
  Name :: string
  Min' :: int
  Max' :: int
  Config :: config

record policy =
  ID :: string
  Source :: string
  Query :: string
  Target :: policy_target
  Strategy :: policy_strategy
  Interval :: duration

record action =
  Count :: int
  Reason :: string

record 'v run_request =
  CurrentCount :: int
  MinCount :: int
  MaxCount :: int
  CurrentValue :: 'v
  Config :: config

text \<open>
  The configuration types \<open>Config\<close>, \<open>APM\<close>, \<open>Target\<close> and \<open>Strategy\<close> are declared
  outside the given sources; the agent reads the fields below. The three plugin
  configuration structs carry the same three fields and share one record.
\<close>

record nomad =
  Address :: string
  Region :: string

record plugin_config =
  Name :: string
  Driver :: string
  Config :: config

record agent_config =
  Nomad :: nomad
  PluginDir :: string
  ScanInterval :: string
  APMs :: "plugin_config list"
  Targets :: "plugin_config list"
  Strategies :: "plugin_config list"

record handshake_config =
  ProtocolVersion :: nat
  MagicCookieKey :: string
  MagicCookieValue :: string


text \<open>
  \<open>plugin.ClientConfig\<close> as the loaders fill it: the handshake, the single key of the
  \<open>Plugins\<close> map and the command path.
\<close>

record client_config =
  HandshakeConfig :: handshake_config
  Plugins :: string
  Cmd :: string

datatype manager = apmManager | targetManager | strategyManager

subsection \<open>The collaborators\<close>

text \<open>
  The plugin managers, the plugins behind them, the policy storage, the Nomad API client
  and the two standard-library functions \<open>time.ParseDuration\<close> and \<open>path.Join\<close> are
  outside the given sources. They are parameters of the model: each call takes the state
  of the outside world \<open>'w\<close> and returns its result with the new state, an error as
  \<open>Inl\<close> or \<open>Some\<close>. The metric value (\<open>'v\<close>) is only passed from \<open>Query\<close> to \<open>Run\<close>.
\<close>

record ('w, 'v) collaborators =
  api_NewClient :: "string \<Rightarrow> string \<Rightarrow> 'w \<Rightarrow> error option \<times> 'w"
  mgr_RegisterPlugin :: "manager \<Rightarrow> string \<Rightarrow> client_config \<Rightarrow> 'w \<Rightarrow> error option \<times> 'w"
  mgr_Dispense :: "manager \<Rightarrow> string \<Rightarrow> 'w \<Rightarrow> (error + handle) \<times> 'w"
  mgr_Kill :: "manager \<Rightarrow> 'w \<Rightarrow> 'w"
  plugin_SetConfig :: "manager \<Rightarrow> handle \<Rightarrow> config \<Rightarrow> 'w \<Rightarrow> error option \<times> 'w"
  target_Count :: "handle \<Rightarrow> config \<Rightarrow> 'w \<Rightarrow> (error + int) \<times> 'w"
  target_Scale :: "handle \<Rightarrow> action \<Rightarrow> config \<Rightarrow> 'w \<Rightarrow> error option \<times> 'w"
  apm_Query :: "handle \<Rightarrow> string \<Rightarrow> 'w \<Rightarrow> (error + 'v) \<times> 'w"
  strategy_Run :: "handle \<Rightarrow> 'v run_request \<Rightarrow> 'w \<Rightarrow> (error + action list) \<times> 'w"
  ps_Get :: "string \<Rightarrow> 'w \<Rightarrow> (error + policy) \<times> 'w"
  time_ParseDuration :: "string \<Rightarrow> error + duration"
  path_Join :: "string \<Rightarrow> string \<Rightarrow> string"

text \<open>
  What the agent does to the outside is recorded as a trace: every call on a collaborator
  with its arguments and its result, and every log line (its level, its message and,
  for an error line, the error it carries).
\<close>

datatype 'v event =
    RegisterPluginCall manager string client_config "error option"
  | DispenseCall manager string "error + handle"
  | SetConfigCall manager handle config "error option"
  | CountCall handle config "error + int"
  | QueryCall handle string "error + 'v"
  | RunCall handle "'v run_request" "error + action list"
  | ScaleCall handle action config "error option"
  | GetCall string "error + policy"
  | LogInfo string
  | LogError string error

definition emit :: "'e list \<Rightarrow> 'e list \<times> 'w \<Rightarrow> 'e list \<times> 'w" where
  "emit evs r = (evs @ fst r, snd r)"

section \<open>The evaluation pipeline: \<open>Agent.handlePolicy\<close>\<close>

text \<open>The final loop of \<open>handlePolicy\<close>, over \<open>results.Actions\<close>.\<close>

fun scaleTarget ::
  "('w, 'v) collaborators \<Rightarrow> handle \<Rightarrow> policy \<Rightarrow> action list \<Rightarrow> 'w \<Rightarrow> 'v event list \<times> 'w"
where
  "scaleTarget a targetPlugin p [] w = ([], w)"
| "scaleTarget a targetPlugin p (action # rest) w =
     (case target_Scale a targetPlugin action (policy_target.Config (Target p)) w of
        (r, w') \<Rightarrow>
          emit [LogInfo ''scaling target'',
                ScaleCall targetPlugin action (policy_target.Config (Target p)) r]
            (case r of
               Some err \<Rightarrow> ([LogError ''failed to scale target'' err], w')
             | None \<Rightarrow> scaleTarget a targetPlugin p rest w'))"

definition handlePolicy ::
  "('w, 'v) collaborators \<Rightarrow> policy \<Rightarrow> 'w \<Rightarrow> 'v event list \<times> 'w"
where
  "handlePolicy a p w0 =
     (case mgr_Dispense a targetManager (policy_target.Name (Target p)) w0 of (r1, w1) \<Rightarrow>
      emit [DispenseCall targetManager (policy_target.Name (Target p)) r1]
      (case r1 of
         Inl err \<Rightarrow> ([LogError ''target plugin not initialized'' err], w1)
       | Inr target \<Rightarrow>
      (case mgr_Dispense a apmManager (Source p) w1 of (r2, w2) \<Rightarrow>
      emit [DispenseCall apmManager (Source p) r2]
      (case r2 of
         Inl err \<Rightarrow> ([LogError ''apm plugin not initialized'' err], w2)
       | Inr apm \<Rightarrow>
      (case mgr_Dispense a strategyManager (policy_strategy.Name (Strategy p)) w2 of (r3, w3) \<Rightarrow>
      emit [DispenseCall strategyManager (policy_strategy.Name (Strategy p)) r3]
      (case r3 of
         Inl err \<Rightarrow> ([LogError ''strategy plugin not initialized'' err], w3)
       | Inr strategy \<Rightarrow>
      (case target_Count a target (policy_target.Config (Target p)) w3 of (r4, w4) \<Rightarrow>
      emit [LogInfo ''fetching current count'',
            CountCall target (policy_target.Config (Target p)) r4]
      (case r4 of
         Inl err \<Rightarrow> ([LogError ''failed to fetch current count'' err], w4)
       | Inr currentCount \<Rightarrow>
      (case apm_Query a apm (Query p) w4 of (r5, w5) \<Rightarrow>
      emit [LogInfo ''querying APM'', QueryCall apm (Query p) r5]
      (case r5 of
         Inl err \<Rightarrow> ([LogError ''failed to query APM'' err], w5)
       | Inr val \<Rightarrow>
      (let req = \<lparr>CurrentCount = currentCount,
                  MinCount = Min' (Strategy p),
                  MaxCount = Max' (Strategy p),
                  CurrentValue = val,
                  run_request.Config = policy_strategy.Config (Strategy p)\<rparr>
       in case strategy_Run a strategy req w5 of (r6, w6) \<Rightarrow>
      emit [LogInfo ''calculating new count'', RunCall strategy req r6]
      (case r6 of
         Inl err \<Rightarrow> ([LogError ''failed to calculate strategy'' err], w6)
       | Inr results \<Rightarrow>
           if length results = 0 then ([LogInfo ''nothing to do''], w6)
           else scaleTarget a target p results w6))))))))))))"

section \<open>The policy monitor: \<open>Agent.monitorPolicy\<close>\<close>

text \<open>
  \<open>time.NewTicker d\<close> panics when \<open>d\<close> is not positive; otherwise the ticker fires every
  \<open>d\<close>. A ticker is modelled by its period.
\<close>

definition NewTicker :: "duration \<Rightarrow> duration option" where
  "NewTicker d = (if d \<le> 0 then None else Some d)"

text \<open>
  Which case of the monitor's \<open>select\<close> fires next is the input of the loop. The loop ends
  as \<open>Stopped\<close> (it returned), \<open>Panicked\<close>, or, when the input is used up, \<open>Waiting t\<close>:
  blocked in the \<open>select\<close> on a ticker of period \<open>t\<close>.
\<close>

datatype monitor_select = CtxDone | Tick

datatype monitor_status = Stopped | Panicked | Waiting duration

definition emit3 :: "'e list \<Rightarrow> 's \<times> 'e list \<times> 'w \<Rightarrow> 's \<times> 'e list \<times> 'w" where
  "emit3 evs r = (fst r, evs @ fst (snd r), snd (snd r))"

fun monitorLoop ::
  "('w, 'v) collaborators \<Rightarrow> string \<Rightarrow> duration \<Rightarrow> duration \<Rightarrow> monitor_select list \<Rightarrow> 'w
     \<Rightarrow> monitor_status \<times> 'v event list \<times> 'w"
where
  "monitorLoop a ID' defaultSleep ticker [] w = (Waiting ticker, [], w)"
| "monitorLoop a ID' defaultSleep ticker (CtxDone # sel) w =
     (Stopped, [LogInfo ''stopped policy check''], w)"
| "monitorLoop a ID' defaultSleep ticker (Tick # sel) w =
     (case ps_Get a ID' w of (r, w1) \<Rightarrow>
      emit3 [GetCall ID' r]
      (case r of
         Inl err \<Rightarrow>
           emit3 [LogError ''failed to fetch policy'' err]
             (monitorLoop a ID' defaultSleep ticker sel w1)
       | Inr policy \<Rightarrow>
           (let sleepDuration = (if Interval policy \<noteq> 0 then Interval policy else defaultSleep)
            in case NewTicker sleepDuration of
                 None \<Rightarrow> (Panicked, [], w1)
               | Some ticker' \<Rightarrow>
                   (case handlePolicy a policy w1 of (tr, w2) \<Rightarrow>
                    emit3 tr (monitorLoop a ID' defaultSleep ticker' sel w2)))))"

definition monitorPolicy ::
  "('w, 'v) collaborators \<Rightarrow> agent_config \<Rightarrow> string \<Rightarrow> monitor_select list \<Rightarrow> 'w
     \<Rightarrow> monitor_status \<times> 'v event list \<times> 'w"
where
  "monitorPolicy a cfg ID' sel w =
     emit3 [LogInfo ''start monitoring policy'']
     (let defaultSleep = (case time_ParseDuration a (ScanInterval cfg) of
                            Inl err \<Rightarrow> 5 * Second
                          | Inr d \<Rightarrow> d)
      in case NewTicker defaultSleep of
           None \<Rightarrow> (Panicked, [], w)
         | Some ticker \<Rightarrow> monitorLoop a ID' defaultSleep ticker sel w)"

section \<open>Loading the plugins\<close>






section \<open>The supervisor: \<open>Agent.Run\<close>\<close>

text \<open>
  The state of \<open>Run\<close>'s loop. \<open>policyMonitors\<close> is the Go map from policy ID to cancel
  function, kept as an association list with one entry per key (the loop adds an entry
  only for an absent key). A cancel function is the number of the context it cancels.
  \<open>contexts\<close> counts the contexts made by \<open>context.WithCancel\<close>, \<open>monitors\<close> lists the
  \<open>monitorPolicy\<close> goroutines launched (context and policy ID), and \<open>cancelled\<close> is the
  set of contexts whose cancel function has been called. Calling a cancel function again
  changes nothing, so the order in which Go ranges over the map is immaterial.
\<close>

record supervisor =
  policyMonitors :: "(string \<times> nat) list"
  contexts :: nat
  monitors :: "(nat \<times> string) list"
  cancelled :: "nat set"

definition newSupervisor :: supervisor where
  "newSupervisor = \<lparr>policyMonitors = [], contexts = 0, monitors = [], cancelled = {}\<rparr>"

text \<open>The first inner loop, "handle policies".\<close>

fun startMonitors :: "policy list \<Rightarrow> supervisor \<Rightarrow> supervisor" where
  "startMonitors [] s = s"
| "startMonitors (p # rest) s =
     (case map_of (policyMonitors s) (ID p) of
        Some cancel \<Rightarrow> startMonitors rest s
      | None \<Rightarrow>
          startMonitors rest
            (s\<lparr>policyMonitors := policyMonitors s @ [(ID p, contexts s)],
               monitors := monitors s @ [(contexts s, ID p)],
               contexts := Suc (contexts s)\<rparr>))"

text \<open>
  The second inner loop, "cancel old policies", over the entries of the map. It calls
  cancel functions; it does not change the map.
\<close>

fun cancelOld :: "policy list \<Rightarrow> (string \<times> nat) list \<Rightarrow> nat set \<Rightarrow> nat set" where
  "cancelOld policies [] c = c"
| "cancelOld policies ((ID', cancel) # rest) c =
     (let found = list_ex (\<lambda>p. ID p = ID') policies
      in cancelOld policies rest (if \<not> found then insert cancel c else c))"

definition handlePolicies :: "policy list \<Rightarrow> supervisor \<Rightarrow> supervisor" where
  "handlePolicies policies s =
     (let s1 = startMonitors policies s
      in s1\<lparr>cancelled := cancelOld policies (policyMonitors s1) (cancelled s1)\<rparr>)"

text \<open>\<open>fmt.Sprintf("found %d policies", n)\<close>.\<close>

fun decimal :: "nat \<Rightarrow> string" where
  "decimal n =
     (if n < 10 then [char_of (48 + n)]
      else decimal (n div 10) @ [char_of (48 + n mod 10)])"

declare decimal.simps [simp del]

definition found_policies :: "nat \<Rightarrow> string" where
  "found_policies n = ''found '' @ decimal n @ '' policies''"

text \<open>
  Which case of \<open>Run\<close>'s \<open>select\<close> fires next is the input of the loop. \<open>Run\<close> ends as
  \<open>Returned err\<close>, or, when the input is used up, as \<open>Looping\<close>: blocked in the \<open>select\<close>.
  The monitors that \<open>Run\<close> launches run concurrently with it; here they are the entries of
  \<open>monitors\<close>, and a monitor is running while its context is not cancelled. On shutdown
  every cancel function is called (each in a goroutine of its own) and the three managers
  are killed.
\<close>

datatype run_select = RecvPolicies "policy list" | RecvErr error | RecvDone

datatype run_status = Returned "error option" | Looping

fun runLoop ::
  "('w, 'v) collaborators \<Rightarrow> supervisor \<Rightarrow> run_select list \<Rightarrow> 'w
     \<Rightarrow> run_status \<times> 'v event list \<times> supervisor \<times> 'w"
where
  "runLoop a s [] w = (Looping, [], s, w)"
| "runLoop a s (RecvPolicies policies # sel) w =
     emit3 [LogInfo (found_policies (length policies))]
       (runLoop a (handlePolicies policies s) sel w)"
| "runLoop a s (RecvErr err # sel) w =
     emit3 [LogError ''failed to fetch policies'' err] (runLoop a s sel w)"
| "runLoop a s (RecvDone # sel) w =
     (Returned None, [LogInfo ''killing plugins''],
      s\<lparr>cancelled := cancelled s \<union> snd ` set (policyMonitors s)\<rparr>,
      mgr_Kill a strategyManager (mgr_Kill a targetManager (mgr_Kill a apmManager w)))"


section \<open>Reading a trace and a supervisor state\<close>

text \<open>The policy IDs whose monitor has been launched on a context that is not cancelled.\<close>

definition running :: "supervisor \<Rightarrow> string list" where
  "running s = map snd (filter (\<lambda>m. fst m \<notin> cancelled s) (monitors s))"

text \<open>The \<open>Scale\<close> calls of a trace in order, each with its action and its result.\<close>

fun scaleCalls :: "'v event list \<Rightarrow> (action \<times> error option) list" where
  "scaleCalls [] = []"
| "scaleCalls (ScaleCall h act c r # tr) = (act, r) # scaleCalls tr"
| "scaleCalls (ev # tr) = scaleCalls tr"

text \<open>The error a call returned, if it returned one; log lines return nothing.\<close>

fun call_error :: "'v event \<Rightarrow> error option" where
  "call_error (RegisterPluginCall m n c r) = r"
| "call_error (DispenseCall m n r) = (case r of Inl err \<Rightarrow> Some err | Inr h \<Rightarrow> None)"
| "call_error (SetConfigCall m h c r) = r"
| "call_error (CountCall h c r) = (case r of Inl err \<Rightarrow> Some err | Inr n \<Rightarrow> None)"
| "call_error (QueryCall h q r) = (case r of Inl err \<Rightarrow> Some err | Inr v \<Rightarrow> None)"
| "call_error (RunCall h req r) = (case r of Inl err \<Rightarrow> Some err | Inr acts \<Rightarrow> None)"
| "call_error (ScaleCall h act c r) = r"
| "call_error (GetCall i r) = (case r of Inl err \<Rightarrow> Some err | Inr p \<Rightarrow> None)"
| "call_error (LogInfo msg) = None"
| "call_error (LogError msg err) = None"

fun is_LogError :: "'v event \<Rightarrow> bool" where
  "is_LogError (LogError msg err) = True"
| "is_LogError ev = False"

text \<open>The stages of the pipeline, and the stages a trace went through, in order.\<close>

datatype stage = DispenseStage manager | CountStage | QueryStage | RunStage | ScaleStage

fun stages :: "'v event list \<Rightarrow> stage list" where
  "stages [] = []"
| "stages (DispenseCall m n r # tr) = DispenseStage m # stages tr"
| "stages (CountCall h c r # tr) = CountStage # stages tr"
| "stages (QueryCall h q r # tr) = QueryStage # stages tr"
| "stages (RunCall h req r # tr) = RunStage # stages tr"
| "stages (ScaleCall h act c r # tr) = ScaleStage # stages tr"
| "stages (ev # tr) = stages tr"

text \<open>The names registered with a manager (the registrations that returned no error).\<close>

fun registered :: "manager \<Rightarrow> 'v event list \<Rightarrow> string list" where
  "registered m [] = []"
| "registered m (RegisterPluginCall m' n c r # tr) =
     (if m' = m \<and> r = None then n # registered m tr else registered m tr)"
| "registered m (ev # tr) = registered m tr"

section \<open>Predicates on traces used in the proofs\<close>

text \<open>
  \<open>aborts_on_failure\<close>: a call that returned an error is followed by one error log line
  carrying that error, and by nothing else.
\<close>

fun logs_only :: "error \<Rightarrow> 'v event list \<Rightarrow> bool" where
  "logs_only err [LogError msg err'] = (err' = err)"
| "logs_only err tr = False"

fun aborts_on_failure :: "'v event list \<Rightarrow> bool" where
  "aborts_on_failure [] = True"
| "aborts_on_failure (ev # rest) =
     (case call_error ev of
        Some err \<Rightarrow> logs_only err rest
      | None \<Rightarrow> aborts_on_failure rest)"




text \<open>The supervisor state in what \<open>runLoop\<close> and \<open>Run\<close> return.\<close>

definition supervisor_of :: "run_status \<times> 'v event list \<times> supervisor \<times> 'w \<Rightarrow> supervisor" where
  "supervisor_of r = fst (snd (snd r))"

section \<open>A concrete set of collaborators\<close>

text \<open>
  Four policies and one set of collaborators on which the model is run. A provider
  named \<open>missing\<close> is not registered, a plugin named \<open>broken\<close> does not start, \<open>Count\<close>
  needs a non-empty target configuration, \<open>Query\<close> a non-empty query, the strategy
  returns one action per entry of its configuration (a count of \<open>-1\<close> for the key \<open>down\<close>,
  of \<open>4\<close> otherwise), and \<open>Scale\<close> refuses a negative count. The world is the number of
  \<open>Get\<close> calls made so far: the first fetch returns a policy as stored, a later fetch
  returns it with its interval edited to one second.
\<close>

definition demo_policy :: policy where
  "demo_policy =
     \<lparr>ID = ''p1'', Source = ''local-nomad'', Query = ''cpu'',
      Target = \<lparr>policy_target.Name = ''local-nomad'', policy_target.Config = [(''job'', ''web'')]\<rparr>,
      Strategy = \<lparr>policy_strategy.Name = ''target-value'', Min' = 1, Max' = 10,
                  policy_strategy.Config = [(''out'', ''scale out'')]\<rparr>,
      Interval = 5 * Second\<rparr>"

definition three_actions :: policy where
  "three_actions = demo_policy\<lparr>ID := ''p2'', Strategy := (Strategy demo_policy)
       \<lparr>policy_strategy.Config := [(''up'', ''scale out''), (''down'', ''scale in''), (''up'', ''again'')]\<rparr>\<rparr>"

definition no_actions :: policy where
  "no_actions = demo_policy\<lparr>ID := ''p3'', Interval := 0,
       Strategy := (Strategy demo_policy)\<lparr>policy_strategy.Config := []\<rparr>\<rparr>"

definition negative_interval :: policy where
  "negative_interval = demo_policy\<lparr>ID := ''p4'', Interval := - 1\<rparr>"

definition demo_policies :: "(string \<times> policy) list" where
  "demo_policies = [(''p1'', demo_policy), (''p2'', three_actions), (''p3'', no_actions),
                    (''p4'', negative_interval)]"

definition demo :: "(nat, int) collaborators" where
  "demo =
     \<lparr>api_NewClient = (\<lambda>region address w. (if address = [] then Some ''no address'' else None, w)),
      mgr_RegisterPlugin = (\<lambda>m n c w. (if n = ''broken'' then Some ''handshake failed'' else None, w)),
      mgr_Dispense = (\<lambda>m n w.
         (if n = ''missing'' then Inl ''not registered''
          else Inr (case m of apmManager \<Rightarrow> 1 | targetManager \<Rightarrow> 2 | strategyManager \<Rightarrow> 3), w)),
      mgr_Kill = (\<lambda>m w. w),
      plugin_SetConfig = (\<lambda>m h c w. (if c = [] then Some ''empty config'' else None, w)),
      target_Count = (\<lambda>h c w. (if c = [] then Inl ''no job'' else Inr 2, w)),
      target_Scale = (\<lambda>h act c w. (if Count act < 0 then Some ''negative count'' else None, w)),
      apm_Query = (\<lambda>h q w. (if q = [] then Inl ''empty query'' else Inr 80, w)),
      strategy_Run = (\<lambda>h req w.
         (if MaxCount req < MinCount req then Inl ''bad bounds''
          else Inr (map (\<lambda>kv. \<lparr>Count = (if fst kv = ''down'' then - 1 else 4), Reason = snd kv\<rparr>)
                      (run_request.Config req)), w)),
      ps_Get = (\<lambda>i w.
         (case map_of demo_policies i of
            None \<Rightarrow> Inl ''not found''
          | Some p \<Rightarrow> Inr (if w = 0 then p else p\<lparr>Interval := Second\<rparr>), Suc w)),
      time_ParseDuration = (\<lambda>s. if s = ''10s'' then Inr (10 * Second) else Inl ''invalid duration''),
      path_Join = (\<lambda>d f. d @ ''/'' @ f)\<rparr>"


section \<open>Lemmas about the evaluation pipeline\<close>

lemma fst_emit [simp]: "fst (emit evs r) = evs @ fst r"
  and snd_emit [simp]: "snd (emit evs r) = snd r"
  by (simp_all add: emit_def)

lemma scaleCalls_append [simp]: "scaleCalls (xs @ ys) = scaleCalls xs @ scaleCalls ys"
  by (induction xs rule: scaleCalls.induct) simp_all

lemma stages_append [simp]: "stages (xs @ ys) = stages xs @ stages ys"
  by (induction xs rule: stages.induct) simp_all

lemma scaleTarget_no_run: "RunCall h req r \<notin> set (fst (scaleTarget a t p acts w))"
  by (induction acts arbitrary: w) (auto split: prod.splits option.splits)

lemma handlePolicy_after_run:
  assumes "RunCall h req (Inr acts) \<in> set (fst (handlePolicy a p w))"
  shows "\<exists>target apm cnt val w6.
           fst (handlePolicy a p w) =
             [DispenseCall targetManager (policy_target.Name (Target p)) (Inr target),
              DispenseCall apmManager (Source p) (Inr apm),
              DispenseCall strategyManager (policy_strategy.Name (Strategy p)) (Inr h),
              LogInfo ''fetching current count'',
              CountCall target (policy_target.Config (Target p)) (Inr cnt),
              LogInfo ''querying APM'',
              QueryCall apm (Query p) (Inr val),
              LogInfo ''calculating new count'',
              RunCall h req (Inr acts)]
             @ (if acts = [] then [LogInfo ''nothing to do'']
                else fst (scaleTarget a target p acts w6))"
  using assms
  by (auto simp: handlePolicy_def scaleTarget_no_run Let_def split: prod.splits sum.splits if_splits)





lemma logs_onlyD: "logs_only err tr \<Longrightarrow> \<exists>msg. tr = [LogError msg err]"
  by (induction err tr rule: logs_only.induct) simp_all

lemma logs_only_no_call: "logs_only err tr \<Longrightarrow> ev \<in> set tr \<Longrightarrow> call_error ev = None"
  by (induction err tr rule: logs_only.induct) auto

lemma aborts_on_failureD:
  "aborts_on_failure tr \<Longrightarrow> tr = pre @ ev # post \<Longrightarrow> call_error ev = Some err
     \<Longrightarrow> \<exists>msg. post = [LogError msg err]"
proof (induction pre arbitrary: tr)
  case Nil
  then show ?case
    by (auto dest: logs_onlyD)
next
  case (Cons x pre)
  then show ?case
    by (cases "call_error x") (auto dest: logs_only_no_call)
qed

lemma scaleTarget_aborts: "aborts_on_failure (fst (scaleTarget a t p acts w))"
  by (induction acts arbitrary: w) (auto split: prod.splits option.splits)

lemma handlePolicy_aborts: "aborts_on_failure (fst (handlePolicy a p w))"
  by (auto simp: handlePolicy_def scaleTarget_aborts Let_def split: prod.splits sum.splits)




lemma emit3_simps [simp]:
  "fst (emit3 evs r) = fst r"
  "fst (snd (emit3 evs r)) = evs @ fst (snd r)"
  "snd (snd (emit3 evs r)) = snd (snd r)"
  by (simp_all add: emit3_def)

lemma emit3_emit3: "emit3 xs (emit3 ys r) = emit3 (xs @ ys) r"
  by (simp add: emit3_def)


lemma monitor_runs_on_positive_default:
  "monitorPolicy a cfg i sel w =
     emit3 [LogInfo ''start monitoring policy'']
       (let d = (case time_ParseDuration a (ScanInterval cfg) of Inl err \<Rightarrow> 5 * Second | Inr d \<Rightarrow> d)
        in if d \<le> 0 then (Panicked, [], w) else monitorLoop a i d d sel w)"
  by (simp add: monitorPolicy_def NewTicker_def Let_def)

subsection \<open>The model run on the concrete collaborators\<close>

lemmas demo_simps = handlePolicy_def demo_def demo_policy_def three_actions_def no_actions_def
  negative_interval_def demo_policies_def emit_def


lemma three_actions_cycle:
  "handlePolicy demo three_actions w =
    ([DispenseCall targetManager ''local-nomad'' (Inr 2),
      DispenseCall apmManager ''local-nomad'' (Inr 1),
      DispenseCall strategyManager ''target-value'' (Inr 3),
      LogInfo ''fetching current count'',
      CountCall 2 [(''job'', ''web'')] (Inr 2),
      LogInfo ''querying APM'',
      QueryCall 1 ''cpu'' (Inr 80),
      LogInfo ''calculating new count'',
      RunCall 3 \<lparr>CurrentCount = 2, MinCount = 1, MaxCount = 10, CurrentValue = 80,
                 run_request.Config = [(''up'', ''scale out''), (''down'', ''scale in''), (''up'', ''again'')]\<rparr>
        (Inr [\<lparr>Count = 4, Reason = ''scale out''\<rparr>, \<lparr>Count = - 1, Reason = ''scale in''\<rparr>,
              \<lparr>Count = 4, Reason = ''again''\<rparr>]),
      LogInfo ''scaling target'',
      ScaleCall 2 \<lparr>Count = 4, Reason = ''scale out''\<rparr> [(''job'', ''web'')] None,
      LogInfo ''scaling target'',
      ScaleCall 2 \<lparr>Count = - 1, Reason = ''scale in''\<rparr> [(''job'', ''web'')] (Some ''negative count''),
      LogError ''failed to scale target'' ''negative count''], w)"
  by (simp add: demo_simps)

lemma no_actions_cycle:
  "handlePolicy demo no_actions w =
    ([DispenseCall targetManager ''local-nomad'' (Inr 2),
      DispenseCall apmManager ''local-nomad'' (Inr 1),
      DispenseCall strategyManager ''target-value'' (Inr 3),
      LogInfo ''fetching current count'',
      CountCall 2 [(''job'', ''web'')] (Inr 2),
      LogInfo ''querying APM'',
      QueryCall 1 ''cpu'' (Inr 80),
      LogInfo ''calculating new count'',
      RunCall 3 \<lparr>CurrentCount = 2, MinCount = 1, MaxCount = 10, CurrentValue = 80,
                 run_request.Config = []\<rparr> (Inr []),
      LogInfo ''nothing to do''], w)"
  by (simp add: demo_simps)


lemma demo_get_first:
  "ps_Get demo ''p1'' 0 = (Inr demo_policy, Suc 0)"
  "ps_Get demo ''p2'' 0 = (Inr three_actions, Suc 0)"
  "ps_Get demo ''p4'' 0 = (Inr negative_interval, Suc 0)"
  "ps_Get demo ''p5'' 0 = (Inl ''not found'', Suc 0)"
  by (simp_all add: demo_def demo_policies_def)


lemma demo_intervals:
  "Interval demo_policy = 5 * Second" "Interval three_actions = 5 * Second"
  "Interval negative_interval = - 1"
  by (simp_all add: demo_policy_def three_actions_def negative_interval_def)

section \<open>The evaluation pipeline: scaling\<close>



text \<open>
  C6. When the strategy's \<open>Run\<close> succeeded with a result of zero actions, the cycle makes
  no \<open>Scale\<close> call, its last step is the informational log line "nothing to do", and
  it logs no error line.
\<close>

theorem no_action_cycle_is_noop:
  assumes "RunCall h req (Inr []) \<in> set (fst (handlePolicy a p w))"
  shows "scaleCalls (fst (handlePolicy a p w)) = []
       \<and> last (fst (handlePolicy a p w)) = LogInfo ''nothing to do''
       \<and> filter is_LogError (fst (handlePolicy a p w)) = []"
  using handlePolicy_after_run [OF assms] by auto

theorem no_action_cycle_is_noop_witness:
  "RunCall 3 \<lparr>CurrentCount = 2, MinCount = 1, MaxCount = 10, CurrentValue = 80,
              run_request.Config = []\<rparr> (Inr [])
     \<in> set (fst (handlePolicy demo no_actions 0))
   \<and> scaleCalls (fst (handlePolicy demo no_actions 0)) = []
   \<and> last (fst (handlePolicy demo no_actions 0)) = LogInfo ''nothing to do''
   \<and> filter is_LogError (fst (handlePolicy demo no_actions 0)) = []"
  using no_action_cycle_is_noop [of 3 _ demo no_actions 0]
  by (simp add: no_actions_cycle)

section \<open>The evaluation pipeline: order of the stages\<close>




section \<open>The policy monitor\<close>

text \<open>
  C4. Take a tick of a monitor whose fetch returned the policy \<open>p\<close> and whose new ticker
  was made, so that the pipeline ran on \<open>p\<close>. Whenever a call in the pipeline's trace
  (a dispense, \<open>Count\<close>, \<open>Query\<close>, \<open>Run\<close> or \<open>Scale\<close>) returned an error, all that
  follows it in the trace is one error log line carrying that error: the pipeline logged and
  returned. \<open>handlePolicy\<close> returns a trace and a world and nothing else, so no error
  reaches the monitor; and whatever the trace is, the monitor's loop goes on with the rest of
  its input, the next tick included.
\<close>

theorem stage_failure_ends_cycle_not_monitor:
  assumes "ps_Get a i w = (Inr p, w1)"
    and "NewTicker (if Interval p \<noteq> 0 then Interval p else ds) = Some t'"
  shows "(\<forall>pre ev post err.
            fst (handlePolicy a p w1) = pre @ ev # post \<and> call_error ev = Some err \<longrightarrow>
              (\<exists>msg. post = [LogError msg err]))
       \<and> monitorLoop a i ds t (Tick # sel) w
           = emit3 (GetCall i (Inr p) # fst (handlePolicy a p w1))
               (monitorLoop a i ds t' sel (snd (handlePolicy a p w1)))"
proof -
  have "\<forall>pre ev post err.
          fst (handlePolicy a p w1) = pre @ ev # post \<and> call_error ev = Some err \<longrightarrow>
            (\<exists>msg. post = [LogError msg err])"
    using handlePolicy_aborts [of a p w1] aborts_on_failureD by blast
  moreover have "monitorLoop a i ds t (Tick # sel) w
           = emit3 (GetCall i (Inr p) # fst (handlePolicy a p w1))
               (monitorLoop a i ds t' sel (snd (handlePolicy a p w1)))"
    using assms by (simp add: emit3_emit3 Let_def split: prod.splits)
  ultimately show ?thesis by blast
qed

theorem stage_failure_ends_cycle_not_monitor_witness:
  "ps_Get demo ''p2'' 0 = (Inr three_actions, Suc 0)
   \<and> NewTicker (if Interval three_actions \<noteq> 0 then Interval three_actions else 10 * Second)
       = Some (5 * Second)
   \<and> last (fst (handlePolicy demo three_actions (Suc 0)))
       = LogError ''failed to scale target'' ''negative count''
   \<and> fst (monitorLoop demo ''p2'' (10 * Second) (10 * Second) [Tick] 0) = Waiting (5 * Second)"
  using stage_failure_ends_cycle_not_monitor
          [of demo "''p2''" 0 three_actions "Suc 0" "10 * Second" "5 * Second" "10 * Second" "[]",
           THEN conjunct2]
  by (simp add: demo_get_first demo_intervals NewTicker_def Second_def three_actions_cycle)




text \<open>
  C8. On a tick whose fetch failed with \<open>err\<close>, the monitor makes the \<open>Get\<close> call, logs
  the error line carrying \<open>err\<close> and does nothing else in that cycle (no pipeline call);
  it goes on with the rest of its input on the same interval \<open>t\<close>, and when the input ends
  there it is waiting on \<open>t\<close>.
\<close>

theorem failed_fetch_skips_cycle:
  assumes "ps_Get a i w = (Inl err, w1)"
  shows "monitorLoop a i ds t (Tick # sel) w
           = emit3 [GetCall i (Inl err), LogError ''failed to fetch policy'' err]
               (monitorLoop a i ds t sel w1)
       \<and> monitorLoop a i ds t [Tick] w
           = (Waiting t, [GetCall i (Inl err), LogError ''failed to fetch policy'' err], w1)"
  using assms by (simp add: emit3_def)

theorem failed_fetch_skips_cycle_witness:
  "ps_Get demo ''p5'' 0 = (Inl ''not found'', Suc 0)
   \<and> monitorLoop demo ''p5'' (10 * Second) (5 * Second) [Tick] 0
       = (Waiting (5 * Second),
          [GetCall ''p5'' (Inl ''not found''), LogError ''failed to fetch policy'' ''not found''], Suc 0)"
  using failed_fetch_skips_cycle [of demo "''p5''" 0 "''not found''" "Suc 0" "10 * Second" "5 * Second" "[]"]
  by (simp add: demo_get_first emit3_def)

section \<open>Lemmas about the plugin load pass and the supervisor\<close>

lemma registered_append [simp]: "registered m (xs @ ys) = registered m xs @ registered m ys"
  by (induction m xs rule: registered.induct) simp_all




















lemmas supervisor_simps = supervisor_of_def handlePolicies_def newSupervisor_def running_def
  demo_policy_def emit3_def Let_def

lemma startMonitors_tracked:
  "map_of (policyMonitors s) i = Some c \<Longrightarrow>
     map_of (policyMonitors (startMonitors ps s)) i = Some c
     \<and> filter (\<lambda>m. snd m = i) (monitors (startMonitors ps s)) = filter (\<lambda>m. snd m = i) (monitors s)
     \<and> cancelled (startMonitors ps s) = cancelled s"
  by (induction ps arbitrary: s) (auto split: option.splits)

lemma tracked_policy_never_restarted:
  "map_of (policyMonitors s) i = Some c \<Longrightarrow>
     map_of (policyMonitors (handlePolicies ps s)) i = Some c
     \<and> filter (\<lambda>m. snd m = i) (monitors (handlePolicies ps s)) = filter (\<lambda>m. snd m = i) (monitors s)"
  using startMonitors_tracked [of s i c ps] by (simp add: handlePolicies_def Let_def)

section \<open>The supervisor and the plugin load pass\<close>

text \<open>
  C1, on the code. The claim has every tracked ID that is absent from the received set
  cancelled and removed from the map, so that a policy removed and later added again gets
  a fresh monitor. The second inner loop of \<open>Run\<close> calls the cancel function and leaves the
  map as it is. Run on the policy sets \<open>[p1]\<close>, \<open>[]\<close>, \<open>[p1]\<close>: after the first set \<open>p1\<close>
  is running; after the second it is cancelled and still in the map; after the third no
  monitor is running, and the only monitor ever launched is the cancelled one.
  \<open>tracked_policy_never_restarted\<close> is the general fact behind it.
\<close>

theorem readded_policy_gets_no_monitor:
  "running (supervisor_of (runLoop demo newSupervisor [RecvPolicies [demo_policy]] 0)) = [''p1'']
   \<and> running (supervisor_of (runLoop demo newSupervisor
        [RecvPolicies [demo_policy], RecvPolicies []] 0)) = []
   \<and> policyMonitors (supervisor_of (runLoop demo newSupervisor
        [RecvPolicies [demo_policy], RecvPolicies []] 0)) = [(''p1'', 0)]
   \<and> running (supervisor_of (runLoop demo newSupervisor
        [RecvPolicies [demo_policy], RecvPolicies [], RecvPolicies [demo_policy]] 0)) = []
   \<and> monitors (supervisor_of (runLoop demo newSupervisor
        [RecvPolicies [demo_policy], RecvPolicies [], RecvPolicies [demo_policy]] 0)) = [(0, ''p1'')]"
  by (simp add: supervisor_simps)





section \<open>Properties of the blocking-query helpers\<close>

text \<open>
  C10. For all \<open>uint64\<close> values \<open>new\<close> and \<open>old\<close>: \<open>FindMaxFound new old\<close> is the maximum
  of the two, \<open>IndexHasChange new old\<close> is true exactly when \<open>new > old\<close>, and that is
  exactly when \<open>FindMaxFound new old\<close> differs from \<open>old\<close>.
\<close>

theorem blocking_index_max_and_change:
  "FindMaxFound new old = max new old
   \<and> IndexHasChange new old = (old < new)
   \<and> IndexHasChange new old = (FindMaxFound new old \<noteq> old)"
  by (auto simp: FindMaxFound_def IndexHasChange_def max_def)

end
